theory Spec2Isabelle
  imports
    Main
    "HOL-Library.AList"
    "HOL-Library.Multiset"
    "HOL-Library.Char_ord"
    "HOL-Library.List_Lexorder"
begin

section \<open>The StoryTeller module (main.js)\<close>

text \<open>
  The module is glue between a host platform and two sheet classes. Everything it does
  is a read or a write of state the host owns (the settings store, the journal
  collection, the configuration tables) or a call into the host (socket, sheets). The
  model keeps that state in one record, \<open>world\<close>, together with a trace of the host
  calls that were made, oldest first. Every function of the module takes the world and
  returns the new one; a function whose JavaScript body can end in an uncaught
  TypeError returns a \<open>completion\<close> beside the world, because the writes made before
  the throw stay.

  Typing. Document ids and type keys are strings and pages are integral numbers, as the
  default parameters \<open>id = ""\<close> and \<open>page = 0\<close> and the message built at lines 110-114
  have them. A value that may be \<open>undefined\<close> is an \<open>option\<close>. A JavaScript object whose
  key order is observed (\<open>Object.keys\<close>, \<open>Object.entries\<close>) is an association list in
  insertion order, written with \<open>AList.update\<close>; the page directory, of which only single
  entries are read and written, is a map.

  Names. The methods \<open>_setPageToOpen\<close> and \<open>_activateSocketListeners\<close> lose their
  leading underscore; the anonymous hook callbacks are \<open>hook_init\<close>, \<open>hook_ready\<close> and
  \<open>hook_closeDialog\<close>. \<open>changeLinkedImageSrc\<close> writes only to the DOM of the form it
  is given and is left out. A sheet class is known by its \<open>name\<close>, taken to be the
  identifier it is imported under.
\<close>

subsection \<open>Data\<close>

datatype completion = Normal | TypeError

text \<open>A sheet class, known by its \<open>name\<close> property.\<close>

datatype sheet_class = SheetClass (class_name: string)

text \<open>The wire message of lines 110-114.\<close>

record message =
  msg_action :: string
  msg_id :: string
  msg_page :: int

text \<open>The creation options the two creation hooks receive; \<open>type\<close> may be absent.\<close>

record options =
  opt_type :: "string option"

text \<open>
  A journal document, as far as the module touches it: the sheet instance that the
  host's getter \<open>doc.sheet\<close> yields (by its \<open>appId\<close>), the cache slot \<open>doc._sheet\<close>, the
  keys of \<open>doc.apps\<close>, and the flags written by \<open>doc.setFlag(scope, key, value)\<close>.
\<close>

record document =
  sheet_appId :: nat
  sheet_cache :: "nat option"
  apps :: "nat list"
  flags :: "string \<times> string \<rightharpoonup> string"


text \<open>Calls into the host that leave no other mark in the world.\<close>

datatype event =
    SocketEmit string message
  | SocketOn string
  | SettingsRegister string string
  | SettingsSet string string
  | RegisterSheet string sheet_class "string list" bool string
  | DocumentShow string string
  | SheetRender string bool
  | SheetClose nat
  | SetFlag string string string string
  | ConsoleLog string

record world =
  st_types :: "(string \<times> sheet_class) list"
  st_labels :: "(string \<times> string) list"
  activeType :: "string option"
  settings_pages :: "string \<rightharpoonup> int"
  journal :: "string \<rightharpoonup> document"
  documentTypes :: "string list"
  typeLabels :: "(string \<times> string) list option"
  localize :: "string option \<Rightarrow> string"
  user_id :: string
  trace :: "event list"

text \<open>
  \<open>st_types\<close> and \<open>st_labels\<close> are the static tables \<open>StoryTeller.types\<close> and
  \<open>StoryTeller.labels\<close>; \<open>activeType\<close> is the slot of the controller instance;
  \<open>settings_pages\<close> is the value of the client setting \<open>storyteller.pages\<close> (the Page
  Directory); \<open>journal\<close> is \<open>game.journal\<close>, keyed by document id; \<open>documentTypes\<close> is
  \<open>game.system.documentTypes.JournalEntry\<close>; \<open>typeLabels\<close> is
  \<open>CONFIG.JournalEntry.typeLabels\<close>; \<open>localize\<close> is \<open>game.i18n.localize\<close>; \<open>user_id\<close> is
  \<open>game.user.id\<close>.
\<close>

subsection \<open>Host primitives\<close>

definition log_event :: "event \<Rightarrow> world \<Rightarrow> world" where
  "log_event e w = w\<lparr>trace := trace w @ [e]\<rparr>"

definition socket_emit :: "string \<Rightarrow> message \<Rightarrow> world \<Rightarrow> world" where
  "socket_emit channel data w = log_event (SocketEmit channel data) w"

definition settings_get_pages :: "world \<Rightarrow> (string \<rightharpoonup> int)" where
  "settings_get_pages w = settings_pages w"

definition settings_set_pages :: "(string \<rightharpoonup> int) \<Rightarrow> world \<Rightarrow> world" where
  "settings_set_pages pages w =
     log_event (SettingsSet ''storyteller'' ''pages'') (w\<lparr>settings_pages := pages\<rparr>)"

definition journal_get :: "string \<Rightarrow> world \<Rightarrow> document option" where
  "journal_get ident w = journal w ident"

text \<open>\<open>Object.keys\<close> and \<open>Array.prototype.includes\<close> (nothing equals \<open>undefined\<close> in an
  array of strings).\<close>

definition object_keys :: "(string \<times> 'a) list \<Rightarrow> string list" where
  "object_keys obj = map fst obj"

definition array_includes :: "string list \<Rightarrow> string option \<Rightarrow> bool" where
  "array_includes xs v = (case v of None \<Rightarrow> False | Some s \<Rightarrow> s \<in> set xs)"

text \<open>Property access \<open>obj[k]\<close>; an undefined key reads the property named \<open>undefined\<close>.\<close>

definition prop_key :: "string option \<Rightarrow> string" where
  "prop_key v = (case v of None \<Rightarrow> ''undefined'' | Some s \<Rightarrow> s)"

text \<open>
  \<open>foundry.utils.mergeObject(original, other)\<close> is the host's utility. On flat objects
  with string values it assigns every property of \<open>other\<close> to \<open>original\<close>, in order.
\<close>

definition mergeObject :: "(string \<times> 'a) list \<Rightarrow> (string \<times> 'a) list \<Rightarrow> (string \<times> 'a) list" where
  "mergeObject original other = fold (\<lambda>(k, v). AList.update k v) other original"

subsection \<open>The controller class\<close>

definition getDocumentTypes :: "world \<Rightarrow> (string \<times> sheet_class) list" where
  "getDocumentTypes w = st_types w"


text \<open>The loop of lines 56-66: one \<open>registerSheet\<close> call per entry, \<open>default\<close> skipped.\<close>

fun register_sheets ::
  "(string \<times> sheet_class) list \<Rightarrow> (string \<times> string) list \<Rightarrow> world \<Rightarrow> world" where
  "register_sheets [] labels w = w"
| "register_sheets ((key, sheet) # rest) labels w =
     (if key = ''default'' then register_sheets rest labels w
      else register_sheets rest labels
             (log_event (RegisterSheet ''journals'' sheet [''base''] False
                           (localize w (map_of labels key))) w))"

definition registerObjects ::
  "(string \<times> sheet_class) list \<Rightarrow> (string \<times> string) list \<Rightarrow> world \<Rightarrow> world" where
  "registerObjects types labels w =
     (let w1 = register_sheets types labels w;
          w2 = w1\<lparr>documentTypes := sort (documentTypes w1 @ object_keys types)\<rparr>
      in w2\<lparr>typeLabels :=
              Some (mergeObject (case typeLabels w2 of None \<Rightarrow> [] | Some t \<Rightarrow> t) labels)\<rparr>)"




text \<open>The remote handler, lines 97-104.\<close>

definition setPageToOpen :: "message \<Rightarrow> world \<Rightarrow> world" where
  "setPageToOpen data w =
     (if msg_action data \<noteq> ''setPageToOpen'' \<or> msg_id data = '''' then w
      else (let pages = settings_get_pages w
            in settings_set_pages (pages(msg_id data \<mapsto> msg_page data)) w))"

text \<open>Lines 107-125. \<open>game.journal.get\<close> yields \<open>undefined\<close> for an id the journal does
  not hold, and the call of \<open>show\<close> on it throws.\<close>

definition showStoryByIDToAll :: "string \<Rightarrow> int \<Rightarrow> world \<Rightarrow> completion \<times> world" where
  "showStoryByIDToAll ident page w =
     (let w1 = (if page \<noteq> 0 then
                  (let w2 = socket_emit ''module.storyteller''
                              \<lparr>msg_action = ''setPageToOpen'', msg_id = ident, msg_page = page\<rparr> w;
                       pages = settings_get_pages w2
                   in settings_set_pages (pages(ident \<mapsto> page)) w2)
                else w)
      in case journal_get ident w1 of
           None \<Rightarrow> (TypeError, w1)
         | Some story \<Rightarrow> (Normal, log_event (DocumentShow ident ''text'') w1))"

text \<open>Lines 128-139.\<close>

definition showStoryToPlayerOnly :: "string \<Rightarrow> int \<Rightarrow> world \<Rightarrow> completion \<times> world" where
  "showStoryToPlayerOnly ident page w =
     (let w1 = (if page \<noteq> 0 then
                  (let pages = settings_get_pages w
                   in settings_set_pages (pages(ident \<mapsto> page)) w)
                else w)
      in case journal_get ident w1 of
           None \<Rightarrow> (TypeError, w1)
         | Some story \<Rightarrow> (Normal, log_event (SheetRender ident True) w1))"

definition setVeryDirtyHack :: "string \<Rightarrow> world \<Rightarrow> world" where
  "setVeryDirtyHack type w = w\<lparr>activeType := Some type\<rparr>"

definition getVeryDirtyHack :: "world \<Rightarrow> string option" where
  "getVeryDirtyHack w = activeType w"

subsection \<open>The hooks\<close>




text \<open>The \<open>closeDialog\<close> hook, lines 167-176; the argument is the value of the dialog's
  select control, if the dialog's form and a select in it are found.\<close>

definition hook_closeDialog :: "string option \<Rightarrow> world \<Rightarrow> world" where
  "hook_closeDialog select_value w =
     (let w1 = setVeryDirtyHack '''' w
      in case select_value of None \<Rightarrow> w1 | Some v \<Rightarrow> setVeryDirtyHack v w1)"

text \<open>Lines 180-188; the hook's effect is the options object it leaves behind.\<close>

definition preCreateJournalEntry :: "'a options_scheme \<Rightarrow> world \<Rightarrow> 'a options_scheme" where
  "preCreateJournalEntry options w =
     (let types = getDocumentTypes w;
          currentType = getVeryDirtyHack w
      in if array_includes (object_keys types) currentType \<and> currentType \<noteq> Some ''default''
         then options\<lparr>opt_type := currentType\<rparr>
         else options)"

text \<open>Lines 208-211.\<close>

definition postCreateJournalEntry :: "string \<Rightarrow> world \<Rightarrow> completion \<times> world" where
  "postCreateJournalEntry ident w =
     (case journal_get ident w of
        None \<Rightarrow> (TypeError, w)
      | Some story \<Rightarrow> (Normal, log_event (SheetRender ident True) w))"

text \<open>Lines 192-205. The document is passed by reference: \<open>doc\<close> is its key in the
  journal, which is also \<open>doc.data._id\<close>.\<close>

definition createJournalEntry ::
  "string \<Rightarrow> 'a options_scheme \<Rightarrow> string \<Rightarrow> world \<Rightarrow> completion \<times> world" where
  "createJournalEntry doc options userId w =
     (let types = getDocumentTypes w
      in if user_id w \<noteq> userId \<or> \<not> array_includes (object_keys types) (opt_type options)
         then (Normal, w)
         else
           (case journal w doc of
              None \<Rightarrow> (TypeError, w)
            | Some d \<Rightarrow>
               (let sheet = sheet_appId d;
                    d1 = d\<lparr>sheet_cache := None\<rparr>;
                    d2 = d1\<lparr>apps := removeAll sheet (apps d1)\<rparr>;
                    w1 = w\<lparr>journal := (journal w)(doc \<mapsto> d2)\<rparr>
                in case map_of types (prop_key (opt_type options)) of
                     None \<Rightarrow> (TypeError, w1)
                   | Some c \<Rightarrow>
                      (let cls = class_name c;
                           v = ''journals.'' @ cls;
                           d3 = d2\<lparr>flags := (flags d2)((''core'', ''sheetClass'') \<mapsto> v)\<rparr>;
                           w2 = log_event (SetFlag doc ''core'' ''sheetClass'' v)
                                  (w1\<lparr>journal := (journal w1)(doc \<mapsto> d3)\<rparr>);
                           w3 = log_event (SheetClose sheet) w2
                       in postCreateJournalEntry doc w3))))"

subsection \<open>The operations of the module, as one step function\<close>




text \<open>The host calls made between two worlds, and the broadcasts among them.\<close>

definition new_events :: "world \<Rightarrow> world \<Rightarrow> event list" where
  "new_events w w' = drop (length (trace w)) (trace w')"

fun is_emit :: "event \<Rightarrow> bool" where
  "is_emit (SocketEmit channel data) = True"
| "is_emit e = False"

definition emitted :: "world \<Rightarrow> world \<Rightarrow> event list" where
  "emitted w w' = filter is_emit (new_events w w')"



text \<open>The keys of the host's type-label table (none while the table is undefined).\<close>

definition type_label_keys :: "world \<Rightarrow> string list" where
  "type_label_keys w = (case typeLabels w of None \<Rightarrow> [] | Some t \<Rightarrow> object_keys t)"

text \<open>The module as shipped: the static tables of lines 7-17, over an empty host.\<close>

definition world0 :: world where
  "world0 =
     \<lparr>st_types = [(''default'', SheetClass ''JournalSheet''), (''story'', SheetClass ''StorySheet'')],
      st_labels = [(''story'', ''STORYTELLER.StoryEntry''),
                   (''default'', ''STORYTELLER.BaseJournalEntry'')],
      activeType = None,
      settings_pages = Map.empty,
      journal = Map.empty,
      documentTypes = [''base''],
      typeLabels = None,
      localize = (\<lambda>k. case k of None \<Rightarrow> ''undefined'' | Some s \<Rightarrow> s),
      user_id = ''gm'',
      trace = []\<rparr>"

text \<open>The same with one document in the journal, its default sheet open as app 7.\<close>

definition doc0 :: document where
  "doc0 = \<lparr>sheet_appId = 7, sheet_cache = Some 7, apps = [7], flags = Map.empty\<rparr>"

definition world1 :: world where
  "world1 = world0\<lparr>journal := [''j1'' \<mapsto> doc0]\<rparr>"

section \<open>Properties\<close>

lemmas host_defs = log_event_def socket_emit_def settings_get_pages_def settings_set_pages_def
  journal_get_def

subsection \<open>Showing a story to everyone\<close>




text \<open>
  C7. For every id \<open>d\<close>, \<open>showStoryByIDToAll d 0\<close> leaves the Page Directory as it was and
  emits nothing on the channel, and still goes on to the journal: with a document under
  \<open>d\<close> its display view is rendered (the only change to the world), without one the
  attempt ends in a TypeError and the world is unchanged.
\<close>

theorem showStoryByIDToAll_page_zero:
  "settings_pages (snd (showStoryByIDToAll d 0 w)) = settings_pages w \<and>
   emitted w (snd (showStoryByIDToAll d 0 w)) = [] \<and>
   (journal w d \<noteq> None \<longrightarrow>
      showStoryByIDToAll d 0 w = (Normal, log_event (DocumentShow d ''text'') w)) \<and>
   (journal w d = None \<longrightarrow> showStoryByIDToAll d 0 w = (TypeError, w))"
  by (auto simp add: showStoryByIDToAll_def emitted_def new_events_def host_defs split: option.splits)

theorem showStoryByIDToAll_page_zero_witness:
  "journal world1 ''j1'' \<noteq> None \<and> journal world0 ''j1'' = None \<and>
   showStoryByIDToAll ''j1'' 0 world1 = (Normal, log_event (DocumentShow ''j1'' ''text'') world1) \<and>
   showStoryByIDToAll ''j1'' 0 world0 = (TypeError, world0)"
  using showStoryByIDToAll_page_zero [of "''j1''" world1]
    showStoryByIDToAll_page_zero [of "''j1''" world0]
  by (simp add: world1_def world0_def)

subsection \<open>Showing a story to the local player\<close>




subsection \<open>The remote handler\<close>



text \<open>
  C10. The local operations do not look at the id: for every page \<open>p \<noteq> 0\<close>, both
  \<open>showStoryByIDToAll "" p\<close> and \<open>showStoryToPlayerOnly "" p\<close> leave a Page Directory entry
  under the empty key, and the former broadcasts a message with the empty id, which the
  remote handler, in any world, drops.
\<close>

theorem empty_id_not_validated:
  "p \<noteq> 0 \<Longrightarrow>
     settings_pages (snd (showStoryByIDToAll '''' p w)) '''' = Some p \<and>
     settings_pages (snd (showStoryToPlayerOnly '''' p w)) '''' = Some p \<and>
     emitted w (snd (showStoryByIDToAll '''' p w))
       = [SocketEmit ''module.storyteller'' \<lparr>msg_action = ''setPageToOpen'', msg_id = '''', msg_page = p\<rparr>] \<and>
     setPageToOpen \<lparr>msg_action = ''setPageToOpen'', msg_id = '''', msg_page = p\<rparr> w' = w'"
  by (auto simp add: showStoryByIDToAll_def showStoryToPlayerOnly_def setPageToOpen_def emitted_def
      new_events_def host_defs Let_def split: option.splits)

theorem empty_id_not_validated_witness:
  "(5::int) \<noteq> 0 \<and>
   settings_pages (snd (showStoryByIDToAll '''' 5 world0)) '''' = Some 5 \<and>
   settings_pages (snd (showStoryToPlayerOnly '''' 5 world0)) '''' = Some 5 \<and>
   setPageToOpen \<lparr>msg_action = ''setPageToOpen'', msg_id = '''', msg_page = 5\<rparr> world1 = world1"
  using empty_id_not_validated [of 5 world0 world1]
  by simp

subsection \<open>The creation hooks\<close>

text \<open>
  C6. At pre-creation, if the pending type slot holds a key of the registered type table
  other than \<open>"default"\<close>, the options' type becomes that value (and nothing else in the
  options changes); if the slot holds \<open>"default"\<close>, or nothing that is a key of the
  table, the options are returned as they came.
\<close>

theorem preCreateJournalEntry_injects:
  "(activeType w = Some t \<and> t \<in> set (object_keys (st_types w)) \<and> t \<noteq> ''default'' \<longrightarrow>
      preCreateJournalEntry opts w = opts\<lparr>opt_type := Some t\<rparr>) \<and>
   (activeType w = Some ''default'' \<or> \<not> array_includes (object_keys (st_types w)) (activeType w) \<longrightarrow>
      preCreateJournalEntry opts w = opts)"
  by (auto simp add: preCreateJournalEntry_def getDocumentTypes_def getVeryDirtyHack_def
      array_includes_def Let_def)

theorem preCreateJournalEntry_injects_witness:
  "activeType (hook_closeDialog (Some ''story'') world0) = Some ''story'' \<and>
   ''story'' \<in> set (object_keys (st_types (hook_closeDialog (Some ''story'') world0))) \<and>
   ''story'' \<noteq> ''default'' \<and>
   preCreateJournalEntry \<lparr>opt_type = None\<rparr> (hook_closeDialog (Some ''story'') world0)
     = \<lparr>opt_type = Some ''story''\<rparr> \<and>
   activeType (hook_closeDialog (Some ''default'') world0) = Some ''default'' \<and>
   preCreateJournalEntry \<lparr>opt_type = None\<rparr> (hook_closeDialog (Some ''default'') world0)
     = \<lparr>opt_type = None\<rparr> \<and>
   \<not> array_includes (object_keys (st_types (hook_closeDialog (Some ''map'') world0)))
       (activeType (hook_closeDialog (Some ''map'') world0)) \<and>
   preCreateJournalEntry \<lparr>opt_type = None\<rparr> (hook_closeDialog (Some ''map'') world0)
     = \<lparr>opt_type = None\<rparr>"
  using preCreateJournalEntry_injects [of "hook_closeDialog (Some ''story'') world0" "''story''" "\<lparr>opt_type = None\<rparr>"]
    preCreateJournalEntry_injects [of "hook_closeDialog (Some ''default'') world0" "''x''" "\<lparr>opt_type = None\<rparr>"]
    preCreateJournalEntry_injects [of "hook_closeDialog (Some ''map'') world0" "''x''" "\<lparr>opt_type = None\<rparr>"]
  by (simp add: hook_closeDialog_def setVeryDirtyHack_def world0_def object_keys_def array_includes_def)

text \<open>The guard of the post-creation hook: a foreign user, or a type that is no key of
  the type table, ends the hook at once.\<close>

lemma createJournalEntry_guard:
  "user_id w \<noteq> userId \<or> \<not> array_includes (object_keys (st_types w)) (opt_type options) \<Longrightarrow>
     createJournalEntry doc options userId w = (Normal, w)"
  by (simp add: createJournalEntry_def getDocumentTypes_def Let_def)

text \<open>
  C3 (the code at the input where it leaves the claim). The creating user creates a
  document with \<open>options.type = "default"\<close>. The claim has the hook return without touching
  the document; the guard at line 194 only asks whether the type is a key of the type
  table, which \<open>"default"\<close> is, so the hook detaches the sheet, stores the preference
  \<open>journals.JournalSheet\<close> on the document, closes the sheet and renders.
\<close>

theorem createJournalEntry_default_swaps:
  "createJournalEntry ''j1'' \<lparr>opt_type = Some ''default''\<rparr> ''gm'' world1 =
     (Normal,
      world1\<lparr>journal := [''j1'' \<mapsto> doc0\<lparr>sheet_cache := None, apps := [],
                 flags := [(''core'', ''sheetClass'') \<mapsto> ''journals.JournalSheet'']\<rparr>],
             trace := [SetFlag ''j1'' ''core'' ''sheetClass'' ''journals.JournalSheet'',
                       SheetClose 7, SheetRender ''j1'' True]\<rparr>)"
  by (simp add: createJournalEntry_def postCreateJournalEntry_def getDocumentTypes_def
      array_includes_def object_keys_def prop_key_def world1_def world0_def doc0_def host_defs Let_def)

theorem createJournalEntry_default_swaps_witness:
  "fst (createJournalEntry ''j1'' \<lparr>opt_type = Some ''default''\<rparr> ''gm'' world1) = Normal \<and>
   trace (snd (createJournalEntry ''j1'' \<lparr>opt_type = Some ''default''\<rparr> ''gm'' world1))
     = [SetFlag ''j1'' ''core'' ''sheetClass'' ''journals.JournalSheet'',
        SheetClose 7, SheetRender ''j1'' True]"
  using createJournalEntry_default_swaps by simp

subsection \<open>Registration\<close>

text \<open>The loop of \<open>registerObjects\<close> makes host calls and changes nothing else.\<close>

lemma register_sheets_frame:
  "register_sheets ts ls w = w\<lparr>trace := trace (register_sheets ts ls w)\<rparr>"
proof (induction ts ls w rule: register_sheets.induct)
  case (1 labels w)
  then show ?case by simp
next
  case (2 key sheet rest labels w)
  show ?case
  proof (cases "key = ''default''")
    case True
    with 2 show ?thesis by simp
  next
    case False
    let ?w = "log_event (RegisterSheet ''journals'' sheet [''base''] False
                (localize w (map_of labels key))) w"
    from 2 False have "register_sheets rest labels ?w
        = ?w\<lparr>trace := trace (register_sheets rest labels ?w)\<rparr>"
      by simp
    with False show ?thesis by (simp add: log_event_def)
  qed
qed

lemma register_sheets_fields:
  "settings_pages (register_sheets ts ls w) = settings_pages w"
  "documentTypes (register_sheets ts ls w) = documentTypes w"
  "typeLabels (register_sheets ts ls w) = typeLabels w"
  "localize (register_sheets ts ls w) = localize w"
  "journal (register_sheets ts ls w) = journal w"
  by (subst register_sheets_frame, simp)+

lemma register_sheets_trace:
  "trace (register_sheets ts ls w) =
     trace w @ map (\<lambda>(k, s). RegisterSheet ''journals'' s [''base''] False (localize w (map_of ls k)))
                 (filter (\<lambda>(k, s). k \<noteq> ''default'') ts)"
  by (induction ts ls w rule: register_sheets.induct) (simp_all add: log_event_def)

lemma mergeObject_keys:
  "set (object_keys (mergeObject a b)) = set (object_keys a) \<union> set (object_keys b)"
proof (induction b arbitrary: a)
  case Nil
  then show ?case by (simp add: mergeObject_def object_keys_def)
next
  case (Cons x b)
  obtain k v where x: "x = (k, v)" by (cases x)
  have "mergeObject a (x # b) = mergeObject (AList.update k v a) b"
    by (simp add: mergeObject_def x)
  moreover have "set (object_keys (AList.update k v a)) = insert k (set (object_keys a))"
    using dom_update [of k v a] by (simp add: object_keys_def)
  ultimately show ?case using Cons.IH [of "AList.update k v a"]
    by (auto simp add: x object_keys_def)
qed

lemma mergeObject_distinct:
  "distinct (object_keys a) \<Longrightarrow> distinct (object_keys (mergeObject a b))"
proof (induction b arbitrary: a)
  case Nil
  then show ?case by (simp add: mergeObject_def)
next
  case (Cons x b)
  obtain k v where x: "x = (k, v)" by (cases x)
  have "distinct (object_keys (AList.update k v a))"
    using Cons.prems by (simp add: object_keys_def distinct_update)
  then have "distinct (object_keys (mergeObject (AList.update k v a) b))"
    by (rule Cons.IH)
  then show ?case by (simp add: mergeObject_def x)
qed

lemma registerObjects_documentTypes:
  "documentTypes (registerObjects types labels w) = sort (documentTypes w @ object_keys types)"
  by (simp add: registerObjects_def Let_def register_sheets_fields)

lemma type_label_keys_alt:
  "type_label_keys w = object_keys (case typeLabels w of None \<Rightarrow> [] | Some t \<Rightarrow> t)"
  by (simp add: type_label_keys_def object_keys_def split: option.splits)

lemma registerObjects_type_label_keys_eq:
  "type_label_keys (registerObjects types labels w)
     = object_keys (mergeObject (case typeLabels w of None \<Rightarrow> [] | Some t \<Rightarrow> t) labels)"
  by (simp add: registerObjects_def Let_def register_sheets_fields type_label_keys_def)

lemma registerObjects_type_label_keys:
  "set (type_label_keys (registerObjects types labels w))
     = set (type_label_keys w) \<union> set (object_keys labels)"
  by (simp only: registerObjects_type_label_keys_eq mergeObject_keys type_label_keys_alt [of w])

lemma registerObjects_type_label_distinct:
  "distinct (type_label_keys w) \<Longrightarrow> distinct (type_label_keys (registerObjects types labels w))"
  by (simp only: registerObjects_type_label_keys_eq mergeObject_distinct type_label_keys_alt [of w])

lemma type_label_keys_world0: "type_label_keys world0 = []"
  by (simp add: type_label_keys_def world0_def)

lemma registerObjects_trace:
  "trace (registerObjects types labels w) = trace (register_sheets types labels w)"
  by (simp add: registerObjects_def Let_def)

text \<open>
  C4 (as amended). Running the registration step twice with the same type set: the
  host's known-type list is the sorted list holding every previous entry once and every
  key of the type set twice, so it has a duplicate as soon as the type set is not empty;
  the type-label table, being keyed, still has no key twice.
\<close>

theorem registerObjects_twice:
  "mset (documentTypes (registerObjects types labels (registerObjects types labels w)))
     = mset (documentTypes w) + mset (object_keys types) + mset (object_keys types) \<and>
   sorted (documentTypes (registerObjects types labels (registerObjects types labels w))) \<and>
   (types \<noteq> [] \<longrightarrow>
      \<not> distinct (documentTypes (registerObjects types labels (registerObjects types labels w)))) \<and>
   (distinct (type_label_keys w) \<longrightarrow>
      distinct (type_label_keys (registerObjects types labels (registerObjects types labels w))))"
proof -
  have "types \<noteq> [] \<Longrightarrow> set (object_keys types) \<noteq> {}"
    by (simp add: object_keys_def)
  then show ?thesis
    by (auto simp add: registerObjects_documentTypes registerObjects_type_label_distinct)
qed

theorem registerObjects_twice_witness:
  "st_types world0 \<noteq> [] \<and> distinct (type_label_keys world0) \<and>
   \<not> distinct (documentTypes (registerObjects (st_types world0) (st_labels world0)
                  (registerObjects (st_types world0) (st_labels world0) world0))) \<and>
   distinct (type_label_keys (registerObjects (st_types world0) (st_labels world0)
                  (registerObjects (st_types world0) (st_labels world0) world0)))"
  using registerObjects_twice [of "st_types world0" "st_labels world0" world0]
  by (simp add: type_label_keys_world0) (simp add: world0_def)

text \<open>
  C4 as stated fails for the known-type list: registering the type set \<open>{story}\<close> twice
  leaves \<open>story\<close> in the list twice.
\<close>

theorem registerObjects_twice_duplicates:
  "\<not> distinct (documentTypes (registerObjects [(''story'', SheetClass ''StorySheet'')]
                  [(''story'', ''STORYTELLER.StoryEntry'')]
                  (registerObjects [(''story'', SheetClass ''StorySheet'')]
                     [(''story'', ''STORYTELLER.StoryEntry'')] world0)))"
  by (simp add: registerObjects_documentTypes object_keys_def)

text \<open>
  C5 (as amended). For every invocation of the registration step, the sheet registration
  calls made are those of the entries whose key is not \<open>"default"\<close>, in order, so none
  is made for \<open>"default"\<close>. The key \<open>"default"\<close> is in the host's known-type list
  afterwards exactly when it was there before or is a key of the type set passed in, and
  in the type-label table exactly when it was there before or is a key of the labels
  passed in.
\<close>

theorem registerObjects_default_key:
  "new_events w (registerObjects types labels w)
     = map (\<lambda>(k, s). RegisterSheet ''journals'' s [''base''] False (localize w (map_of labels k)))
         (filter (\<lambda>(k, s). k \<noteq> ''default'') types) \<and>
   (''default'' \<in> set (documentTypes (registerObjects types labels w)) \<longleftrightarrow>
      ''default'' \<in> set (documentTypes w) \<or> ''default'' \<in> set (object_keys types)) \<and>
   (''default'' \<in> set (type_label_keys (registerObjects types labels w)) \<longleftrightarrow>
      ''default'' \<in> set (type_label_keys w) \<or> ''default'' \<in> set (object_keys labels))"
  by (simp add: new_events_def registerObjects_trace register_sheets_trace
      registerObjects_documentTypes registerObjects_type_label_keys)

theorem registerObjects_default_key_witness:
  "new_events world0 (registerObjects (st_types world0) (st_labels world0) world0)
     = [RegisterSheet ''journals'' (SheetClass ''StorySheet'') [''base''] False ''STORYTELLER.StoryEntry''] \<and>
   ''default'' \<in> set (documentTypes (registerObjects (st_types world0) (st_labels world0) world0)) \<and>
   ''default'' \<in> set (type_label_keys (registerObjects (st_types world0) (st_labels world0) world0))"
  using registerObjects_default_key [of world0 "st_types world0" "st_labels world0"]
  by (simp add: type_label_keys_world0) (simp add: world0_def object_keys_def)

text \<open>
  C5 as stated fails for the host's tables: registering the module's own tables, as
  initialisation does, enters \<open>"default"\<close> in the known-type list and in the type-label
  table, neither of which held it.
\<close>

theorem registerObjects_default_entries:
  "''default'' \<notin> set (documentTypes world0) \<and>
   ''default'' \<notin> set (type_label_keys world0) \<and>
   ''default'' \<in> set (documentTypes (registerObjects (st_types world0) (st_labels world0) world0)) \<and>
   ''default'' \<in> set (type_label_keys (registerObjects (st_types world0) (st_labels world0) world0))"
  by (simp add: registerObjects_documentTypes registerObjects_type_label_keys
      type_label_keys_world0) (simp add: world0_def object_keys_def)

subsection \<open>The Page Directory\<close>












end
